theory Spec2Isabelle
  imports Main
begin

section \<open>The connection manager (src/lib/websocket-manager.ts)\<close>

text \<open>
  The manager is a class whose methods mutate \<open>this\<close> and talk to three things outside
  it: the sockets it creates with \<open>new WebSocket\<close>, the timers it creates with
  \<open>setTimeout\<close>/\<open>setInterval\<close>, and the console. The model passes one state, the
  \<open>world\<close>, through every method: the fields of the manager object followed by the
  sockets (a store indexed by creation order, so that two sockets stay two objects), the
  pending timers, the console output and the calls made to state-change listeners.

  The event bus of the class (\<open>on\<close>, \<open>handleMessage\<close> and the \<open>message\<close> listener) reads
  and writes only its own registry of handlers, none of the fields below, and is not
  part of the model; listeners are taken not to call back into the manager while they
  run.

  Strings are byte lists (UTF-8). JavaScript numbers are modelled as \<open>int\<close>: intervals,
  attempt counters and close codes are integral in every use the source makes of them.
\<close>

subsection \<open>Data\<close>

datatype ConnectionState = CONNECTING | CONNECTED | DISCONNECTED | RECONNECTING | ERROR

text \<open>\<open>WebSocket.readyState\<close>: the four values the platform defines.\<close>

datatype ReadyState = WS_CONNECTING | WS_OPEN | WS_CLOSING | WS_CLOSED

text \<open>\<open>interface WebSocketConfig\<close>: every field optional.\<close>

record WebSocketConfig =
  opt_url :: "string option"
  opt_reconnectInterval :: "int option"
  opt_maxReconnectAttempts :: "int option"
  opt_heartbeatInterval :: "int option"
  opt_authToken :: "string option"

text \<open>\<open>Required<WebSocketConfig>\<close>: the type of \<open>this.config\<close>.\<close>

record RequiredConfig =
  url :: string
  reconnectInterval :: int
  maxReconnectAttempts :: int
  heartbeatInterval :: int
  authToken :: string

text \<open>
  \<open>DEFAULT_CONFIG\<close>. Its url reads the environment variable \<open>NEXT_PUBLIC_WS_URL\<close>,
  which is the parameter; \<open>||\<close> falls back on an undefined or empty value.
\<close>

definition DEFAULT_CONFIG :: "string option \<Rightarrow> RequiredConfig" where
  "DEFAULT_CONFIG NEXT_PUBLIC_WS_URL =
     \<lparr> url = (case NEXT_PUBLIC_WS_URL of
                None \<Rightarrow> ''ws://localhost:8000/ws''
              | Some u \<Rightarrow> if u = [] then ''ws://localhost:8000/ws'' else u),
       reconnectInterval = 3000,
       maxReconnectAttempts = 5,
       heartbeatInterval = 30000,
       authToken = [] \<rparr>"

text \<open>The object spread \<open>{ ...DEFAULT_CONFIG, ...config }\<close>: a present field wins.\<close>

definition spread_config :: "RequiredConfig \<Rightarrow> WebSocketConfig \<Rightarrow> RequiredConfig" where
  "spread_config d c =
     \<lparr> url = (case opt_url c of None \<Rightarrow> url d | Some v \<Rightarrow> v),
       reconnectInterval =
         (case opt_reconnectInterval c of None \<Rightarrow> reconnectInterval d | Some v \<Rightarrow> v),
       maxReconnectAttempts =
         (case opt_maxReconnectAttempts c of None \<Rightarrow> maxReconnectAttempts d | Some v \<Rightarrow> v),
       heartbeatInterval =
         (case opt_heartbeatInterval c of None \<Rightarrow> heartbeatInterval d | Some v \<Rightarrow> v),
       authToken = (case opt_authToken c of None \<Rightarrow> authToken d | Some v \<Rightarrow> v) \<rparr>"

text \<open>
  The \<open>data\<close> argument of \<open>send\<close> has type \<open>unknown\<close>. What matters of a value is
  what \<open>JSON.stringify\<close> does with it: it has a JSON text, or it is a value the
  function rejects with a \<open>TypeError\<close> (a \<open>BigInt\<close>, an object that contains itself).
\<close>

datatype payload = Json string | Unserialisable

datatype exception = TypeError

text \<open>The message \<open>send\<close> serialises: \<open>{ type, data, timestamp }\<close>.\<close>

record Envelope =
  env_type :: string
  env_data :: "string option"
  env_timestamp :: string

text \<open>
  A socket object: the url it was constructed with, its \<open>readyState\<close>, whether the
  manager's four listeners are attached, and the frames handed to its \<open>send\<close>.
\<close>

record WebSocket =
  ws_url :: string
  readyState :: ReadyState
  listening :: bool
  outbox :: "Envelope list"

datatype console_entry =
    Log_connected
  | Log_disconnected int string
  | Log_scheduling int int
  | Warn_not_sent string "payload option"
  | Error_connection_failed
  | Error_websocket
  | Error_max_attempts

text \<open>
  The fields of the class. \<open>ws\<close> is a reference: the index of the socket in the store.
  Timer handles are the numbers \<open>setTimeout\<close> and \<open>setInterval\<close> return (positive,
  hence truthy). \<open>connectionStateHandlers\<close> holds the listeners by name, in insertion
  order, as the \<open>Set\<close> iterates them.
\<close>

record WebSocketManager =
  ws :: "nat option"
  config :: RequiredConfig
  connectionState :: ConnectionState
  reconnectAttempts :: int
  reconnectTimer :: "nat option"
  heartbeatTimer :: "nat option"
  connectionStateHandlers :: "nat list"

text \<open>
  The world: the manager's fields, then what lives outside the object. A pending timeout
  is its handle and delay; every timeout the manager creates runs \<open>this.connect()\<close>, and
  every interval runs the heartbeat callback.
\<close>

record world = WebSocketManager +
  sockets :: "WebSocket list"
  timeouts :: "(nat \<times> int) list"
  intervals :: "(nat \<times> int) list"
  nextTimerId :: nat
  console :: "console_entry list"
  notified :: "(nat \<times> ConnectionState) list"

subsection \<open>The platform\<close>

definition hex_digit :: "nat \<Rightarrow> char" where
  "hex_digit n = ''0123456789ABCDEF'' ! (n mod 16)"

definition unreserved :: "char \<Rightarrow> bool" where
  "unreserved c =
     (c \<in> set ''ABCDEFGHIJKLMNOPQRSTUVWXYZabcdefghijklmnopqrstuvwxyz0123456789-_.!~*()''
      \<or> c = CHR 0x27)"

text \<open>
  \<open>encodeURIComponent\<close> on the UTF-8 bytes of the string: letters, digits and
  \<open>- _ . ! ~ * ' ( )\<close> stay, every other byte becomes \<open>%XX\<close>. A byte string has no
  lone surrogate, the one input on which the JavaScript function throws.
\<close>

definition encodeURIComponent :: "string \<Rightarrow> string" where
  "encodeURIComponent s =
     concat (map (\<lambda>c. if unreserved c then [c]
                       else [CHR ''%'', hex_digit (of_char c div 16), hex_digit (of_char c)]) s)"

definition new_WebSocket :: "string \<Rightarrow> WebSocket" where
  "new_WebSocket u = \<lparr> ws_url = u, readyState = WS_CONNECTING, listening = False, outbox = [] \<rparr>"

text \<open>\<open>socket.close(code, reason)\<close>: starts the closing handshake unless already closing or closed.\<close>

definition socket_close :: "WebSocket \<Rightarrow> WebSocket" where
  "socket_close s =
     (if readyState s = WS_CLOSING \<or> readyState s = WS_CLOSED then s
      else s\<lparr>readyState := WS_CLOSING\<rparr>)"

definition setTimeout :: "int \<Rightarrow> world \<Rightarrow> nat \<times> world" where
  "setTimeout delay w =
     (nextTimerId w,
      w\<lparr>timeouts := timeouts w @ [(nextTimerId w, delay)], nextTimerId := Suc (nextTimerId w)\<rparr>)"

definition clearTimeout :: "nat \<Rightarrow> world \<Rightarrow> world" where
  "clearTimeout t w = w\<lparr>timeouts := filter (\<lambda>p. fst p \<noteq> t) (timeouts w)\<rparr>"

definition setInterval :: "int \<Rightarrow> world \<Rightarrow> nat \<times> world" where
  "setInterval delay w =
     (nextTimerId w,
      w\<lparr>intervals := intervals w @ [(nextTimerId w, delay)], nextTimerId := Suc (nextTimerId w)\<rparr>)"

definition clearInterval :: "nat \<Rightarrow> world \<Rightarrow> world" where
  "clearInterval t w = w\<lparr>intervals := filter (\<lambda>p. fst p \<noteq> t) (intervals w)\<rparr>"

definition console_add :: "console_entry \<Rightarrow> world \<Rightarrow> world" where
  "console_add e w = w\<lparr>console := console w @ [e]\<rparr>"

subsection \<open>The methods\<close>

text \<open>\<open>this.ws?.readyState === WebSocket.OPEN\<close>\<close>

definition ws_is_open :: "world \<Rightarrow> bool" where
  "ws_is_open w =
     (case ws w of
        None \<Rightarrow> False
      | Some i \<Rightarrow> i < length (sockets w) \<and> readyState (sockets w ! i) = WS_OPEN)"

text \<open>
  \<open>setConnectionState\<close>: on a change, store the state and call every listener with it.
  A listener is outside code, and one that throws is caught; what the model keeps of
  the call is that it was made.
\<close>

definition setConnectionState :: "ConnectionState \<Rightarrow> world \<Rightarrow> world" where
  "setConnectionState s w =
     (if connectionState w \<noteq> s
      then w\<lparr>connectionState := s,
              notified := notified w @ map (\<lambda>h. (h, s)) (connectionStateHandlers w)\<rparr>
      else w)"

definition clearReconnectTimer :: "world \<Rightarrow> world" where
  "clearReconnectTimer w =
     (case reconnectTimer w of
        Some t \<Rightarrow> (clearTimeout t w)\<lparr>reconnectTimer := None\<rparr>
      | None \<Rightarrow> w)"

definition clearHeartbeatTimer :: "world \<Rightarrow> world" where
  "clearHeartbeatTimer w =
     (case heartbeatTimer w of
        Some t \<Rightarrow> (clearInterval t w)\<lparr>heartbeatTimer := None\<rparr>
      | None \<Rightarrow> w)"

definition scheduleReconnect :: "world \<Rightarrow> world" where
  "scheduleReconnect w =
     (if reconnectAttempts w \<ge> maxReconnectAttempts (config w)
      then setConnectionState ERROR (console_add Error_max_attempts w)
      else
        let w1 = w\<lparr>reconnectAttempts := reconnectAttempts w + 1\<rparr>;
            w2 = setConnectionState RECONNECTING w1;
            w3 = console_add
                   (Log_scheduling (reconnectAttempts w2) (maxReconnectAttempts (config w2))) w2;
            (t, w4) = setTimeout (reconnectInterval (config w3) * reconnectAttempts w3) w3
        in w4\<lparr>reconnectTimer := Some t\<rparr>)"

definition setupEventListeners :: "world \<Rightarrow> world" where
  "setupEventListeners w =
     (case ws w of
        None \<Rightarrow> w
      | Some i \<Rightarrow> w\<lparr>sockets := (sockets w)[i := (sockets w ! i)\<lparr>listening := True\<rparr>]\<rparr>)"

text \<open>
  \<open>connect(authToken?)\<close>, with its local constant \<open>wsUrl\<close> first. The \<open>try\<close> block can
  throw in \<open>new WebSocket(wsUrl)\<close>, which rejects some urls; which ones is the platform's
  matter, the parameter \<open>accepts\<close>.
\<close>

definition wsUrl :: "RequiredConfig \<Rightarrow> string" where
  "wsUrl c =
     (if authToken c \<noteq> [] then url c @ ''?token='' @ encodeURIComponent (authToken c)
      else url c)"

definition connect :: "(string \<Rightarrow> bool) \<Rightarrow> string option \<Rightarrow> world \<Rightarrow> world" where
  "connect accepts tok w =
     (if ws_is_open w then w
      else
        let w1 = (case tok of
                    None \<Rightarrow> w
                  | Some t \<Rightarrow> if t \<noteq> [] then w\<lparr>config := (config w)\<lparr>authToken := t\<rparr>\<rparr> else w);
            w2 = setConnectionState CONNECTING w1;
            w3 = clearReconnectTimer w2
        in if accepts (wsUrl (config w3))
           then setupEventListeners
                  (w3\<lparr>ws := Some (length (sockets w3)),
                      sockets := sockets w3 @ [new_WebSocket (wsUrl (config w3))]\<rparr>)
           else scheduleReconnect
                  (setConnectionState ERROR (console_add Error_connection_failed w3)))"

definition disconnect :: "world \<Rightarrow> world" where
  "disconnect w =
     (let w1 = clearReconnectTimer w;
          w2 = clearHeartbeatTimer w1;
          w3 = (case ws w2 of
                  None \<Rightarrow> w2
                | Some i \<Rightarrow>
                    w2\<lparr>ws := None,
                        sockets := (sockets w2)[i := socket_close (sockets w2 ! i)]\<rparr>);
          w4 = setConnectionState DISCONNECTED w3
      in w4\<lparr>reconnectAttempts := 0\<rparr>)"

text \<open>\<open>onConnectionStateChange(handler)\<close>: \<open>Set.add\<close>; the unsubscribe function deletes.\<close>

definition onConnectionStateChange :: "nat \<Rightarrow> world \<Rightarrow> world" where
  "onConnectionStateChange h w =
     (if h \<in> set (connectionStateHandlers w) then w
      else w\<lparr>connectionStateHandlers := connectionStateHandlers w @ [h]\<rparr>)"

definition unsubscribe_state :: "nat \<Rightarrow> world \<Rightarrow> world" where
  "unsubscribe_state h w =
     w\<lparr>connectionStateHandlers := filter (\<lambda>k. k \<noteq> h) (connectionStateHandlers w)\<rparr>"

text \<open>
  \<open>JSON.stringify({ type, data, timestamp })\<close>: an undefined \<open>data\<close> leaves the key out,
  a value without a JSON text makes the call throw.
\<close>

definition JSON_stringify :: "string \<Rightarrow> payload option \<Rightarrow> string \<Rightarrow> exception + Envelope" where
  "JSON_stringify type data now =
     (case data of
        None \<Rightarrow> Inr \<lparr>env_type = type, env_data = None, env_timestamp = now\<rparr>
      | Some (Json j) \<Rightarrow> Inr \<lparr>env_type = type, env_data = Some j, env_timestamp = now\<rparr>
      | Some Unserialisable \<Rightarrow> Inl TypeError)"

text \<open>
  \<open>send(type, data?)\<close>. \<open>now\<close> is the clock reading \<open>new Date().toISOString()\<close>. The
  call of \<open>JSON.stringify\<close> stands in no \<open>try\<close>: its exception leaves \<open>send\<close>, before
  anything is handed to the socket.
\<close>

definition send :: "string \<Rightarrow> payload option \<Rightarrow> string \<Rightarrow> world \<Rightarrow> exception + world" where
  "send type data now w =
     (if ws_is_open w
      then (case JSON_stringify type data now of
              Inl e \<Rightarrow> Inl e
            | Inr message \<Rightarrow>
                (case ws w of
                   None \<Rightarrow> Inr w
                 | Some i \<Rightarrow>
                     Inr (w\<lparr>sockets := (sockets w)[i := (sockets w ! i)
                            \<lparr>outbox := outbox (sockets w ! i) @ [message]\<rparr>]\<rparr>)))
      else Inr (console_add (Warn_not_sent type data) w))"

definition getConnectionState :: "world \<Rightarrow> ConnectionState" where
  "getConnectionState w = connectionState w"

definition isConnected :: "world \<Rightarrow> bool" where
  "isConnected w = (connectionState w = CONNECTED)"

definition startHeartbeat :: "world \<Rightarrow> world" where
  "startHeartbeat w =
     (let w1 = clearHeartbeatTimer w;
          (t, w2) = setInterval (heartbeatInterval (config w1)) w1
      in w2\<lparr>heartbeatTimer := Some t\<rparr>)"

text \<open>
  The interval callback of \<open>startHeartbeat\<close>. It sends no \<open>data\<close>; were \<open>send\<close> to throw,
  the timer would report the exception and the world would be as before.
\<close>

definition heartbeat :: "string \<Rightarrow> world \<Rightarrow> world" where
  "heartbeat now w =
     (if ws_is_open w
      then (case send ''ping'' None now w of Inl e \<Rightarrow> w | Inr w' \<Rightarrow> w')
      else w)"

text \<open>The listeners \<open>setupEventListeners\<close> attaches; each one acts on \<open>this\<close>, the manager.\<close>

definition onopen :: "world \<Rightarrow> world" where
  "onopen w =
     startHeartbeat ((setConnectionState CONNECTED (console_add Log_connected w))
                       \<lparr>reconnectAttempts := 0\<rparr>)"

definition onclose :: "int \<Rightarrow> string \<Rightarrow> world \<Rightarrow> world" where
  "onclose code reason w =
     (let w1 = clearHeartbeatTimer (console_add (Log_disconnected code reason) w)
      in if code \<noteq> 1000
         then scheduleReconnect (setConnectionState DISCONNECTED w1)
         else setConnectionState DISCONNECTED w1)"

definition onerror :: "world \<Rightarrow> world" where
  "onerror w = setConnectionState ERROR (console_add Error_websocket w)"

subsection \<open>The singleton\<close>

text \<open>
  The private constructor: \<open>config\<close> defaults to \<open>{}\<close>, and the field initialisers.
\<close>

definition empty_config :: WebSocketConfig where
  "empty_config =
     \<lparr> opt_url = None, opt_reconnectInterval = None, opt_maxReconnectAttempts = None,
       opt_heartbeatInterval = None, opt_authToken = None \<rparr>"

definition new_WebSocketManager :: "string option \<Rightarrow> WebSocketConfig option \<Rightarrow> WebSocketManager" where
  "new_WebSocketManager NEXT_PUBLIC_WS_URL cfg =
     \<lparr> ws = None,
       config = spread_config (DEFAULT_CONFIG NEXT_PUBLIC_WS_URL)
                  (case cfg of None \<Rightarrow> empty_config | Some c \<Rightarrow> c),
       connectionState = DISCONNECTED,
       reconnectAttempts = 0,
       reconnectTimer = None,
       heartbeatTimer = None,
       connectionStateHandlers = [] \<rparr>"

text \<open>
  \<open>static getInstance(config?)\<close>. The static field \<open>instance\<close> is passed in and out; the
  second component is the object returned.
\<close>

definition getInstance ::
  "string option \<Rightarrow> WebSocketConfig option \<Rightarrow> WebSocketManager option
     \<Rightarrow> WebSocketManager option \<times> WebSocketManager" where
  "getInstance NEXT_PUBLIC_WS_URL cfg inst =
     (case inst of
        None \<Rightarrow> (let m = new_WebSocketManager NEXT_PUBLIC_WS_URL cfg in (Some m, m))
      | Some m \<Rightarrow> (Some m, m))"

text \<open>
  Evaluating the module: the class is declared with \<open>instance\<close> unset, and the last
  statement is \<open>export const wsManager = WebSocketManager.getInstance()\<close>.
\<close>

definition module_load :: "string option \<Rightarrow> WebSocketManager option \<times> WebSocketManager" where
  "module_load NEXT_PUBLIC_WS_URL = getInstance NEXT_PUBLIC_WS_URL None None"

text \<open>
  \<open>useWebSocket(config?)\<close> obtains its manager from \<open>getInstance(config)\<close> and returns
  closures that forward to it; the manager they forward to is what the model returns.
\<close>

definition useWebSocket ::
  "string option \<Rightarrow> WebSocketConfig option \<Rightarrow> WebSocketManager option
     \<Rightarrow> WebSocketManager option \<times> WebSocketManager" where
  "useWebSocket NEXT_PUBLIC_WS_URL cfg inst = getInstance NEXT_PUBLIC_WS_URL cfg inst"

text \<open>The world once the module is loaded: the singleton, no socket, no timer.\<close>

definition initial_world :: "string option \<Rightarrow> world" where
  "initial_world NEXT_PUBLIC_WS_URL =
     WebSocketManager.extend (snd (module_load NEXT_PUBLIC_WS_URL))
       (world.fields [] [] [] 1 [] [])"

subsection \<open>Events\<close>

text \<open>
  What can happen to the manager: a caller invokes a public method, a socket the manager
  listens to fires one of its events, or a timer runs its callback. A socket fires
  \<open>open\<close> once, out of \<open>CONNECTING\<close>, and \<open>close\<close> once, after which it is \<open>CLOSED\<close>;
  the listeners stay attached to a socket the manager no longer refers to. An event
  that cannot happen in the current world leaves it as it is, and so does a call of
  \<open>send\<close> that throws: the exception goes to the caller.
\<close>

datatype event =
    Call_connect "string option"
  | Call_disconnect
  | Call_send string "payload option" string
  | Call_onConnectionStateChange nat
  | Call_unsubscribe nat
  | Socket_open nat
  | Socket_error nat
  | Socket_close nat int string
  | Timeout_fires nat
  | Interval_fires nat string

definition set_readyState :: "nat \<Rightarrow> ReadyState \<Rightarrow> world \<Rightarrow> world" where
  "set_readyState i r w = w\<lparr>sockets := (sockets w)[i := (sockets w ! i)\<lparr>readyState := r\<rparr>]\<rparr>"

fun step :: "(string \<Rightarrow> bool) \<Rightarrow> event \<Rightarrow> world \<Rightarrow> world" where
  "step accepts (Call_connect tok) w = connect accepts tok w"
| "step accepts Call_disconnect w = disconnect w"
| "step accepts (Call_send type data now) w =
     (case send type data now w of Inl e \<Rightarrow> w | Inr w' \<Rightarrow> w')"
| "step accepts (Call_onConnectionStateChange h) w = onConnectionStateChange h w"
| "step accepts (Call_unsubscribe h) w = unsubscribe_state h w"
| "step accepts (Socket_open i) w =
     (if i < length (sockets w) \<and> listening (sockets w ! i)
         \<and> readyState (sockets w ! i) = WS_CONNECTING
      then onopen (set_readyState i WS_OPEN w) else w)"
| "step accepts (Socket_error i) w =
     (if i < length (sockets w) \<and> listening (sockets w ! i) then onerror w else w)"
| "step accepts (Socket_close i code reason) w =
     (if i < length (sockets w) \<and> listening (sockets w ! i)
         \<and> readyState (sockets w ! i) \<noteq> WS_CLOSED
      then onclose code reason (set_readyState i WS_CLOSED w) else w)"
| "step accepts (Timeout_fires t) w =
     (if t \<in> fst ` set (timeouts w) then connect accepts None (clearTimeout t w) else w)"
| "step accepts (Interval_fires t now) w =
     (if t \<in> fst ` set (intervals w) then heartbeat now w else w)"

definition run :: "(string \<Rightarrow> bool) \<Rightarrow> event list \<Rightarrow> world \<Rightarrow> world" where
  "run accepts evs w = fold (step accepts) evs w"

text \<open>The events that set the attempt counter to 0.\<close>

fun resets_counter :: "event \<Rightarrow> bool" where
  "resets_counter (Socket_open i) = True"
| "resets_counter Call_disconnect = True"
| "resets_counter e = False"

section \<open>The status aggregator (components/providers/websocket-provider.tsx)\<close>

datatype TaskType = writing | analysis | research | consistency_check

datatype TaskStatus = pending | processing | completed | failed

text \<open>\<open>interface Task\<close> and \<open>interface ProcessingStatus\<close> of types/index.ts; a \<open>Date\<close> is a time stamp.\<close>

record Task =
  id_task :: string
  type_task :: TaskType
  status :: TaskStatus
  progress :: int
  description :: string
  startedAt :: "nat option"
  completedAt :: "nat option"

record ProcessingStatus =
  activeAgents :: "string list"
  currentTasks :: "Task list"
  queueLength :: int
  estimatedCompletion :: "nat option"

text \<open>The two pieces of React state the provider folds events into.\<close>

record provider =
  processingStatus :: "ProcessingStatus option"
  lastActivity :: "nat option"

definition provider_init :: provider where
  "provider_init = \<lparr> processingStatus = None, lastActivity = None \<rparr>"

text \<open>
  The updater passed to \<open>setProcessingStatus\<close> by the \<open>task-update\<close> handler:
  \<open>map\<close>, then \<open>push\<close> when \<open>find\<close> finds no task of that id.
\<close>

definition task_update_reducer :: "Task \<Rightarrow> ProcessingStatus option \<Rightarrow> ProcessingStatus option" where
  "task_update_reducer task prev =
     (case prev of
        None \<Rightarrow> None
      | Some p \<Rightarrow>
          let updatedTasks = map (\<lambda>t. if id_task t = id_task task then task else t) (currentTasks p);
              updatedTasks' =
                (if find (\<lambda>t. id_task t = id_task task) updatedTasks = None
                 then updatedTasks @ [task] else updatedTasks)
          in Some (p\<lparr>currentTasks := updatedTasks'\<rparr>))"

definition on_processing_status :: "nat \<Rightarrow> ProcessingStatus \<Rightarrow> provider \<Rightarrow> provider" where
  "on_processing_status now st p = p\<lparr>processingStatus := Some st, lastActivity := Some now\<rparr>"

definition on_task_update :: "nat \<Rightarrow> Task \<Rightarrow> provider \<Rightarrow> provider" where
  "on_task_update now task p =
     p\<lparr>processingStatus := task_update_reducer task (processingStatus p),
       lastActivity := Some now\<rparr>"

text \<open>The messages the provider subscribes to, each with the clock reading at its arrival.\<close>

datatype message = Processing_status nat ProcessingStatus | Task_update nat Task

fun deliver :: "message \<Rightarrow> provider \<Rightarrow> provider" where
  "deliver (Processing_status now st) p = on_processing_status now st p"
| "deliver (Task_update now task) p = on_task_update now task p"

definition deliver_all :: "message list \<Rightarrow> provider \<Rightarrow> provider" where
  "deliver_all ms p = fold deliver ms p"

fun is_snapshot :: "message \<Rightarrow> bool" where
  "is_snapshot (Processing_status now st) = True"
| "is_snapshot (Task_update now task) = False"

section \<open>Concrete inputs\<close>

text \<open>The values at which the theorems below are instantiated and the traces they run.\<close>

definition task_a10 :: Task where
  "task_a10 = \<lparr> id_task = ''a'', type_task = writing, status = processing, progress = 10,
       description = ''draft'', startedAt = None, completedAt = None \<rparr>"

definition status_S :: ProcessingStatus where
  "status_S = \<lparr> activeAgents = [''writer''], currentTasks = [task_a10], queueLength = 3,
       estimatedCompletion = None \<rparr>"

text \<open>A platform whose \<open>WebSocket\<close> constructor accepts every url; no environment variable set.\<close>

definition accept_all :: "string \<Rightarrow> bool" where
  "accept_all u = True"

definition world0 :: world where
  "world0 = initial_world None"


text \<open>A first connection attempt under way, and the attempt after one failure.\<close>

definition first_attempt :: world where
  "first_attempt = run accept_all [Call_connect None] world0"

definition second_attempt :: world where
  "second_attempt =
     run accept_all [Call_connect None, Socket_close 0 1006 [], Timeout_fires 1] world0"

text \<open>One listener registered, then a connection that opened.\<close>

definition connected_world :: world where
  "connected_world =
     run accept_all [Call_onConnectionStateChange 0, Call_connect None, Socket_open 0] world0"



text \<open>A listener registered, then the first socket fails.\<close>

definition reconnecting_listened :: world where
  "reconnecting_listened =
     run accept_all [Call_onConnectionStateChange 0, Call_connect None, Socket_close 0 1006 []]
       world0"

text \<open>
  A connection that opened and then failed five times in a row, each reconnect timer
  having fired; and the same followed by the fifth reconnect failing too.
\<close>

definition five_closes :: "event list" where
  "five_closes = [Call_onConnectionStateChange 0, Call_connect None, Socket_open 0,
     Socket_close 0 1006 [], Timeout_fires 2,
     Socket_close 1 1006 [], Timeout_fires 3,
     Socket_close 2 1006 [], Timeout_fires 4,
     Socket_close 3 1006 [], Timeout_fires 5,
     Socket_close 4 1006 []]"

definition exhausted_world :: world where
  "exhausted_world = run accept_all (five_closes @ [Timeout_fires 6, Socket_close 5 1006 []]) world0"

text \<open>
  Two calls of \<open>connect\<close> in a row, after which the second socket and every reconnect
  fail while the first socket is still connecting.
\<close>

definition stale_trace :: "event list" where
  "stale_trace = [Call_onConnectionStateChange 0, Call_connect None, Call_connect None,
     Socket_close 1 1006 [], Timeout_fires 1,
     Socket_close 2 1006 [], Timeout_fires 2,
     Socket_close 3 1006 [], Timeout_fires 3,
     Socket_close 4 1006 [], Timeout_fires 4,
     Socket_close 5 1006 [], Timeout_fires 5,
     Socket_close 6 1006 []]"

text \<open>
  Two calls of \<open>connect\<close> in a row; the second socket opens, then the first one fails.
\<close>

definition split_world :: world where
  "split_world =
     run accept_all [Call_connect None, Call_connect None, Socket_open 1, Socket_close 0 1006 []]
       world0"

text \<open>
  A connection opened with the token \<open>old\<close>; \<open>connect\<close> is called with the token \<open>new\<close>
  while it is open; then the socket fails and the reconnect timer fires.
\<close>

definition token_refresh :: "event list" where
  "token_refresh = [Call_connect (Some ''old''), Socket_open 0, Call_connect (Some ''new''),
     Socket_close 0 1006 [], Timeout_fires 2]"

text \<open>A first attempt with the token \<open>old\<close> that failed: the reconnect is pending.\<close>

definition token_reconnecting :: world where
  "token_reconnecting =
     run accept_all [Call_connect (Some ''old''), Socket_close 0 1006 []] world0"

text \<open>Five failures in a row, and the fifth reconnect timer has fired.\<close>

definition last_attempt :: world where
  "last_attempt = run accept_all (five_closes @ [Timeout_fires 6]) world0"

section \<open>The status aggregator: properties\<close>

subsection \<open>Replacing by key in a list of distinct keys\<close>

lemma map_replace_distinct:
  assumes "distinct (map f xs)" and "i < length xs" and "f (xs ! i) = k"
  shows "map (\<lambda>t. if f t = k then y else t) xs = xs[i := y]"
proof (rule nth_equalityI)
  show "length (map (\<lambda>t. if f t = k then y else t) xs) = length (xs[i := y])" by simp
next
  fix j assume "j < length (map (\<lambda>t. if f t = k then y else t) xs)"
  then have j: "j < length xs" by simp
  show "map (\<lambda>t. if f t = k then y else t) xs ! j = xs[i := y] ! j"
  proof (cases "j = i")
    case True
    with assms j show ?thesis by simp
  next
    case False
    have "f (xs ! j) \<noteq> k"
    proof
      assume "f (xs ! j) = k"
      then have "map f xs ! j = map f xs ! i" using assms j by simp
      moreover have "j < length (map f xs)" and "i < length (map f xs)" using assms(2) j by simp_all
      ultimately have "j = i" using assms(1) nth_eq_iff_index_eq by blast
      with False show False by simp
    qed
    with False j show ?thesis by simp
  qed
qed

lemma map_replace_absent:
  assumes "k \<notin> f ` set xs"
  shows "map (\<lambda>t. if f t = k then y else t) xs = xs"
  using assms by (induction xs) auto

lemma find_absent: "k \<notin> f ` set xs \<Longrightarrow> find (\<lambda>t. f t = k) xs = None"
  by (induction xs) auto

lemma find_present: "i < length xs \<Longrightarrow> f (xs ! i) = k \<Longrightarrow> find (\<lambda>t. f t = k) xs \<noteq> None"
proof -
  assume "i < length xs" and "f (xs ! i) = k"
  then have "xs ! i \<in> set xs \<and> f (xs ! i) = k" by simp
  then have "\<exists>x. x \<in> set xs \<and> f x = k" by blast
  then show ?thesis by (simp add: find_None_iff)
qed

lemma filter_absent: "k \<notin> f ` set xs \<Longrightarrow> filter (\<lambda>t. f t = k) xs = []"
  by (induction xs) auto

lemma count_distinct_key:
  "distinct (map f xs) \<Longrightarrow> k \<in> f ` set xs \<Longrightarrow> length (filter (\<lambda>t. f t = k) xs) = 1"
proof (induction xs)
  case Nil
  then show ?case by simp
next
  case (Cons x xs)
  show ?case
  proof (cases "f x = k")
    case True
    with Cons.prems have "k \<notin> f ` set xs" by auto
    then have "filter (\<lambda>t. f t = k) xs = []" by (rule filter_absent)
    with True show ?thesis by simp
  next
    case False
    with Cons show ?thesis by auto
  qed
qed

lemma count_after_replace:
  assumes "distinct (map f xs)" and "i < length xs" and "f (xs ! i) = k" and "f y = k"
  shows "length (filter (\<lambda>t. f t = k) (xs[i := y])) = 1"
proof -
  have e: "map f (xs[i := y]) = map f xs"
    using assms by (simp add: map_update list_update_same_conv)
  have d: "distinct (map f (xs[i := y]))" using assms(1) e by simp
  have "y \<in> set (xs[i := y])" using assms(2) by (simp add: set_update_memI)
  then have m: "k \<in> f ` set (xs[i := y])" using assms(4) by force
  show ?thesis using d m by (rule count_distinct_key)
qed

subsection \<open>The merge law\<close>

text \<open>
  Claim C7. Let the provider hold a status \<open>prev\<close> whose tasks have pairwise distinct
  ids, and let a \<open>task-update\<close> for \<open>task\<close> arrive. If position \<open>i\<close> of \<open>currentTasks\<close>
  holds a task of that id, the new status is \<open>prev\<close> with exactly that position replaced
  by \<open>task\<close>, and the list then holds exactly one task of that id. If no task has that
  id, the new status is \<open>prev\<close> with \<open>task\<close> appended at the end. In both cases
  \<open>activeAgents\<close> and \<open>queueLength\<close> are those of \<open>prev\<close>.
\<close>

theorem task_update_merge:
  assumes "processingStatus p = Some prev"
    and "distinct (map id_task (currentTasks prev))"
  shows "(i < length (currentTasks prev) \<and> id_task (currentTasks prev ! i) = id_task task \<longrightarrow>
            processingStatus (on_task_update now task p)
              = Some (prev\<lparr>currentTasks := (currentTasks prev)[i := task]\<rparr>)
          \<and> length (filter (\<lambda>t. id_task t = id_task task) ((currentTasks prev)[i := task])) = 1)
       \<and> (id_task task \<notin> id_task ` set (currentTasks prev) \<longrightarrow>
            processingStatus (on_task_update now task p)
              = Some (prev\<lparr>currentTasks := currentTasks prev @ [task]\<rparr>))
       \<and> map_option activeAgents (processingStatus (on_task_update now task p)) = Some (activeAgents prev)
       \<and> map_option queueLength (processingStatus (on_task_update now task p)) = Some (queueLength prev)"
proof -
  let ?ts = "currentTasks prev"
  let ?k = "id_task task"
  let ?m = "map (\<lambda>t. if id_task t = ?k then task else t) ?ts"
  have present: "processingStatus (on_task_update now task p)
                   = Some (prev\<lparr>currentTasks := ?ts[i := task]\<rparr>)
                 \<and> length (filter (\<lambda>t. id_task t = ?k) (?ts[i := task])) = 1"
    if i: "i < length ?ts" and k: "id_task (?ts ! i) = ?k"
  proof -
    have m: "?m = ?ts[i := task]" using assms(2) i k by (rule map_replace_distinct)
    have "find (\<lambda>t. id_task t = ?k) (?ts[i := task]) \<noteq> None"
      using i by (intro find_present [of i]) simp_all
    then have "(find (\<lambda>t. id_task t = ?k) (?ts[i := task]) = None) = False" by simp
    with m assms(1) have "processingStatus (on_task_update now task p)
        = Some (prev\<lparr>currentTasks := ?ts[i := task]\<rparr>)"
      by (simp add: on_task_update_def task_update_reducer_def Let_def)
    moreover have "length (filter (\<lambda>t. id_task t = ?k) (?ts[i := task])) = 1"
      using assms(2) i k by (intro count_after_replace) simp_all
    ultimately show ?thesis by simp
  qed
  have absent: "processingStatus (on_task_update now task p)
                  = Some (prev\<lparr>currentTasks := ?ts @ [task]\<rparr>)"
    if a: "?k \<notin> id_task ` set ?ts"
  proof -
    have "?m = ?ts" using a by (rule map_replace_absent)
    moreover have "find (\<lambda>t. id_task t = ?k) ?ts = None" using a by (rule find_absent)
    ultimately show ?thesis using assms(1)
      by (simp add: on_task_update_def task_update_reducer_def Let_def)
  qed
  have rest: "map_option activeAgents (processingStatus (on_task_update now task p))
                = Some (activeAgents prev)
              \<and> map_option queueLength (processingStatus (on_task_update now task p))
                = Some (queueLength prev)"
    using assms(1) by (simp add: on_task_update_def task_update_reducer_def Let_def)
  from present absent rest show ?thesis by blast
qed

text \<open>
  The theorem at the status \<open>[T(id = a, progress = 10)]\<close>: an update for \<open>a\<close> with
  progress 50 replaces, an update for \<open>b\<close> appends.
\<close>

theorem task_update_merge_witness:
  "processingStatus \<lparr>processingStatus = Some status_S, lastActivity = None\<rparr> = Some status_S
   \<and> distinct (map id_task (currentTasks status_S))
   \<and> processingStatus (on_task_update 7 (task_a10\<lparr>progress := 50\<rparr>)
         \<lparr>processingStatus = Some status_S, lastActivity = None\<rparr>)
       = Some (status_S\<lparr>currentTasks := [task_a10\<lparr>progress := 50\<rparr>]\<rparr>)
   \<and> processingStatus (on_task_update 7 (task_a10\<lparr>id_task := ''b''\<rparr>)
         \<lparr>processingStatus = Some status_S, lastActivity = None\<rparr>)
       = Some (status_S\<lparr>currentTasks := [task_a10, task_a10\<lparr>id_task := ''b''\<rparr>]\<rparr>)"
proof -
  let ?p = "\<lparr>processingStatus = Some status_S, lastActivity = None\<rparr>"
  have h1: "processingStatus ?p = Some status_S" by simp
  have h2: "distinct (map id_task (currentTasks status_S))" by (simp add: status_S_def)
  show ?thesis
    using h1 h2
      task_update_merge [OF h1 h2, of 0 "task_a10\<lparr>progress := 50\<rparr>" 7]
      task_update_merge [OF h1 h2, of 0 "task_a10\<lparr>id_task := ''b''\<rparr>" 7]
    by (simp add: status_S_def task_a10_def)
qed

subsection \<open>No status before the first snapshot\<close>

lemma deliver_all_snoc: "deliver_all (ms @ [m]) p = deliver m (deliver_all ms p)"
  by (simp add: deliver_all_def)

text \<open>
  Claim C8. Starting from the provider's initial state, after any sequence of messages
  the exposed status is \<open>null\<close> exactly when no \<open>processing-status\<close> snapshot was among
  them: every \<open>task-update\<close> that arrives before the first snapshot is dropped, and a
  non-null status never arises from deltas alone.
\<close>

theorem status_null_until_snapshot:
  "(processingStatus (deliver_all ms provider_init) = None) = (\<forall>m \<in> set ms. \<not> is_snapshot m)"
proof (induction ms rule: rev_induct)
  case Nil
  show ?case by (simp add: deliver_all_def provider_init_def)
next
  case (snoc m ms)
  show ?case
  proof (cases m)
    case (Processing_status now st)
    then show ?thesis by (simp add: deliver_all_snoc on_processing_status_def)
  next
    case (Task_update now task)
    then show ?thesis using snoc
      by (auto simp: deliver_all_snoc on_task_update_def task_update_reducer_def Let_def
               split: option.splits)
  qed
qed

text \<open>The theorem at two task updates and no snapshot.\<close>

theorem status_null_until_snapshot_witness:
  "\<not> is_snapshot (Task_update 1 task_a10)
   \<and> \<not> is_snapshot (Task_update 2 (task_a10\<lparr>progress := 50\<rparr>))
   \<and> processingStatus (deliver_all [Task_update 1 task_a10, Task_update 2 (task_a10\<lparr>progress := 50\<rparr>)]
         provider_init) = None"
  using status_null_until_snapshot
          [of "[Task_update 1 task_a10, Task_update 2 (task_a10\<lparr>progress := 50\<rparr>)]"]
  by simp

section \<open>The connection manager: properties\<close>

lemmas platform_defs = setTimeout_def clearTimeout_def setInterval_def clearInterval_def
  console_add_def set_readyState_def

lemmas method_defs = setConnectionState_def clearReconnectTimer_def clearHeartbeatTimer_def
  scheduleReconnect_def setupEventListeners_def startHeartbeat_def

lemmas send_defs = send_def JSON_stringify_def

lemmas send_splits = option.splits payload.splits sum.splits

subsection \<open>The singleton\<close>

text \<open>
  Claim C9. Once the static field holds an instance, \<open>getInstance\<close> returns that
  instance and leaves the field alone, whatever configuration it is given; only a call
  that finds the field unset constructs a manager from its argument. Loading the module
  is such a call, made with no argument, so the instance has the default configuration;
  \<open>useWebSocket(config)\<close>, which can only run after the module is loaded, gets that same
  instance for every \<open>config\<close>.
\<close>

theorem getInstance_singleton:
  "getInstance e cfg (Some m) = (Some m, m)
   \<and> getInstance e cfg None = (Some (new_WebSocketManager e cfg), new_WebSocketManager e cfg)
   \<and> fst (module_load e) = Some (snd (module_load e))
   \<and> config (snd (module_load e)) = DEFAULT_CONFIG e
   \<and> useWebSocket e' cfg (fst (module_load e)) = module_load e"
  by (simp add: getInstance_def module_load_def useWebSocket_def new_WebSocketManager_def
        spread_config_def empty_config_def DEFAULT_CONFIG_def Let_def)

subsection \<open>The reconnection policy\<close>

lemma scheduleReconnect_retry:
  assumes "reconnectAttempts w < maxReconnectAttempts (config w)"
  shows "reconnectAttempts (scheduleReconnect w) = reconnectAttempts w + 1"
    and "timeouts (scheduleReconnect w)
           = timeouts w @ [(nextTimerId w, reconnectInterval (config w) * (reconnectAttempts w + 1))]"
    and "reconnectTimer (scheduleReconnect w) = Some (nextTimerId w)"
    and "connectionState (scheduleReconnect w) = RECONNECTING"
    and "config (scheduleReconnect w) = config w"
  using assms by (simp_all add: method_defs platform_defs Let_def)

lemma scheduleReconnect_exhausted:
  assumes "reconnectAttempts w \<ge> maxReconnectAttempts (config w)"
  shows "reconnectAttempts (scheduleReconnect w) = reconnectAttempts w"
    and "timeouts (scheduleReconnect w) = timeouts w"
    and "reconnectTimer (scheduleReconnect w) = reconnectTimer w"
    and "connectionState (scheduleReconnect w) = ERROR"
    and "config (scheduleReconnect w) = config w"
  using assms by (simp_all add: method_defs platform_defs Let_def)

text \<open>
  Claim C3. When attempts remain, \<open>scheduleReconnect\<close> counts the attempt and schedules
  exactly one timeout, whose delay is the configured \<open>reconnectInterval\<close> times the new
  attempt count. For a non-negative interval the delay of the next attempt (same
  configuration, count one higher) is at least the delay of this one.
\<close>

theorem reconnect_delay_linear:
  assumes "reconnectAttempts w < maxReconnectAttempts (config w)"
  shows "reconnectAttempts (scheduleReconnect w) = reconnectAttempts w + 1
       \<and> timeouts (scheduleReconnect w)
           = timeouts w @ [(nextTimerId w,
                reconnectInterval (config w) * reconnectAttempts (scheduleReconnect w))]
       \<and> reconnectTimer (scheduleReconnect w) = Some (nextTimerId w)
       \<and> (0 \<le> reconnectInterval (config w)
            \<and> config w' = config w
            \<and> reconnectAttempts w' = reconnectAttempts w + 1
            \<and> reconnectAttempts w' < maxReconnectAttempts (config w')
          \<longrightarrow> snd (last (timeouts (scheduleReconnect w)))
                \<le> snd (last (timeouts (scheduleReconnect w'))))"
proof -
  note r = scheduleReconnect_retry [OF assms]
  have mono: "snd (last (timeouts (scheduleReconnect w)))
                \<le> snd (last (timeouts (scheduleReconnect w')))"
    if b: "0 \<le> reconnectInterval (config w)" and c: "config w' = config w"
      and n: "reconnectAttempts w' = reconnectAttempts w + 1"
      and l: "reconnectAttempts w' < maxReconnectAttempts (config w')"
  proof -
    have "reconnectInterval (config w) * (reconnectAttempts w + 1)
            \<le> reconnectInterval (config w) * (reconnectAttempts w + 1 + 1)"
      using b by (intro mult_left_mono) simp_all
    then show ?thesis
      using r(2) scheduleReconnect_retry(2) [OF l] c n by simp
  qed
  from r(1-3) mono show ?thesis by (intro conjI impI; (elim conjE)?; simp)
qed

text \<open>
  The theorem under the default configuration, at the first attempt and at the attempt
  after one failure: the delays are 3000 and 6000.
\<close>

theorem reconnect_delay_linear_witness:
  "reconnectAttempts first_attempt < maxReconnectAttempts (config first_attempt)
   \<and> 0 \<le> reconnectInterval (config first_attempt)
   \<and> config second_attempt = config first_attempt
   \<and> reconnectAttempts second_attempt = reconnectAttempts first_attempt + 1
   \<and> reconnectAttempts second_attempt < maxReconnectAttempts (config second_attempt)
   \<and> reconnectAttempts (scheduleReconnect first_attempt) = 1
   \<and> timeouts (scheduleReconnect first_attempt) = [(1, 3000)]
   \<and> snd (last (timeouts (scheduleReconnect first_attempt)))
       \<le> snd (last (timeouts (scheduleReconnect second_attempt)))"
proof -
  have a: "reconnectAttempts first_attempt = 0 \<and> timeouts first_attempt = []
           \<and> nextTimerId first_attempt = 1
           \<and> reconnectInterval (config first_attempt) = 3000
           \<and> maxReconnectAttempts (config first_attempt) = 5"
    by code_simp
  have b: "config second_attempt = config first_attempt \<and> reconnectAttempts second_attempt = 1"
    by code_simp
  have h: "reconnectAttempts first_attempt < maxReconnectAttempts (config first_attempt)"
    using a by simp
  have p: "0 \<le> reconnectInterval (config first_attempt)
           \<and> config second_attempt = config first_attempt
           \<and> reconnectAttempts second_attempt = reconnectAttempts first_attempt + 1
           \<and> reconnectAttempts second_attempt < maxReconnectAttempts (config second_attempt)"
    using a b by simp
  note t = reconnect_delay_linear [OF h, of second_attempt]
  from t p have c: "snd (last (timeouts (scheduleReconnect first_attempt)))
                      \<le> snd (last (timeouts (scheduleReconnect second_attempt)))"
    by blast
  from t have "reconnectAttempts (scheduleReconnect first_attempt)
                 = reconnectAttempts first_attempt + 1"
    by blast
  with a have d: "reconnectAttempts (scheduleReconnect first_attempt) = 1" by simp
  from t have "timeouts (scheduleReconnect first_attempt)
      = timeouts first_attempt @ [(nextTimerId first_attempt,
          reconnectInterval (config first_attempt)
            * reconnectAttempts (scheduleReconnect first_attempt))]"
    by blast
  with a d have e: "timeouts (scheduleReconnect first_attempt) = [(1, 3000)]" by simp
  from h p c d e show ?thesis by blast
qed

subsection \<open>Close events\<close>

text \<open>
  Claim C5. Take any socket the manager listens to that has not fired \<open>close\<close> yet, and
  let it fire \<open>close\<close> with a code. With code 1000 the manager ends in \<open>DISCONNECTED\<close>, its
  listeners are told so if that is a change, and no timeout is created and the attempt
  count stays. With any other code the listeners are first told \<open>DISCONNECTED\<close> (if that
  is a change) and the policy follows: while attempts remain the count goes up by one, a
  timeout of \<open>reconnectInterval\<close> times the new count is created and the state is
  \<open>RECONNECTING\<close>; otherwise the state is \<open>ERROR\<close> and no timeout is created. In every
  case the heartbeat timer is cleared.
\<close>

theorem close_event_policy:
  assumes "i < length (sockets w)"
    and "listening (sockets w ! i)"
    and "readyState (sockets w ! i) \<noteq> WS_CLOSED"
  shows "(code = 1000 \<longrightarrow>
            connectionState (step accepts (Socket_close i code reason) w) = DISCONNECTED
          \<and> timeouts (step accepts (Socket_close i code reason) w) = timeouts w
          \<and> reconnectTimer (step accepts (Socket_close i code reason) w) = reconnectTimer w
          \<and> reconnectAttempts (step accepts (Socket_close i code reason) w) = reconnectAttempts w
          \<and> notified (step accepts (Socket_close i code reason) w)
              = notified w @ (if connectionState w = DISCONNECTED then []
                              else map (\<lambda>h. (h, DISCONNECTED)) (connectionStateHandlers w)))
       \<and> (code \<noteq> 1000 \<and> reconnectAttempts w < maxReconnectAttempts (config w) \<longrightarrow>
            connectionState (step accepts (Socket_close i code reason) w) = RECONNECTING
          \<and> reconnectAttempts (step accepts (Socket_close i code reason) w) = reconnectAttempts w + 1
          \<and> timeouts (step accepts (Socket_close i code reason) w)
              = timeouts w @ [(nextTimerId w,
                   reconnectInterval (config w) * (reconnectAttempts w + 1))]
          \<and> reconnectTimer (step accepts (Socket_close i code reason) w) = Some (nextTimerId w)
          \<and> notified (step accepts (Socket_close i code reason) w)
              = notified w @ (if connectionState w = DISCONNECTED then []
                              else map (\<lambda>h. (h, DISCONNECTED)) (connectionStateHandlers w))
                  @ map (\<lambda>h. (h, RECONNECTING)) (connectionStateHandlers w))
       \<and> (code \<noteq> 1000 \<and> reconnectAttempts w \<ge> maxReconnectAttempts (config w) \<longrightarrow>
            connectionState (step accepts (Socket_close i code reason) w) = ERROR
          \<and> reconnectAttempts (step accepts (Socket_close i code reason) w) = reconnectAttempts w
          \<and> timeouts (step accepts (Socket_close i code reason) w) = timeouts w
          \<and> reconnectTimer (step accepts (Socket_close i code reason) w) = reconnectTimer w
          \<and> notified (step accepts (Socket_close i code reason) w)
              = notified w @ (if connectionState w = DISCONNECTED then []
                              else map (\<lambda>h. (h, DISCONNECTED)) (connectionStateHandlers w))
                  @ map (\<lambda>h. (h, ERROR)) (connectionStateHandlers w))
       \<and> readyState (sockets (step accepts (Socket_close i code reason) w) ! i) = WS_CLOSED
       \<and> heartbeatTimer (step accepts (Socket_close i code reason) w) = None"
  using assms
  by (simp add: onclose_def method_defs platform_defs Let_def split: option.splits)

text \<open>
  The theorem at a connected manager with one listener, for a normal closure and for
  code 1006, and at the attempt that follows five failures in a row, for code 1006.
\<close>

theorem close_event_policy_witness:
  "0 < length (sockets connected_world)
   \<and> listening (sockets connected_world ! 0)
   \<and> readyState (sockets connected_world ! 0) \<noteq> WS_CLOSED
   \<and> connectionState (step accept_all (Socket_close 0 1000 []) connected_world) = DISCONNECTED
   \<and> timeouts (step accept_all (Socket_close 0 1000 []) connected_world) = []
   \<and> reconnectAttempts (step accept_all (Socket_close 0 1000 []) connected_world) = 0
   \<and> connectionState (step accept_all (Socket_close 0 1006 []) connected_world) = RECONNECTING
   \<and> reconnectAttempts (step accept_all (Socket_close 0 1006 []) connected_world) = 1
   \<and> timeouts (step accept_all (Socket_close 0 1006 []) connected_world) = [(2, 3000)]
   \<and> notified (step accept_all (Socket_close 0 1006 []) connected_world)
       = [(0, CONNECTING), (0, CONNECTED), (0, DISCONNECTED), (0, RECONNECTING)]
   \<and> 5 < length (sockets last_attempt)
   \<and> listening (sockets last_attempt ! 5)
   \<and> readyState (sockets last_attempt ! 5) \<noteq> WS_CLOSED
   \<and> maxReconnectAttempts (config last_attempt) \<le> reconnectAttempts last_attempt
   \<and> connectionState (step accept_all (Socket_close 5 1006 []) last_attempt) = ERROR
   \<and> timeouts (step accept_all (Socket_close 5 1006 []) last_attempt) = []"
proof -
  have a: "0 < length (sockets connected_world) \<and> listening (sockets connected_world ! 0)
           \<and> readyState (sockets connected_world ! 0) \<noteq> WS_CLOSED"
    by code_simp
  have b: "connectionState connected_world = CONNECTED \<and> timeouts connected_world = []
           \<and> reconnectAttempts connected_world = 0 \<and> nextTimerId connected_world = 2
           \<and> notified connected_world = [(0, CONNECTING), (0, CONNECTED)]
           \<and> connectionStateHandlers connected_world = [0]
           \<and> reconnectInterval (config connected_world) = 3000
           \<and> maxReconnectAttempts (config connected_world) = 5"
    by code_simp
  from a have h1: "0 < length (sockets connected_world)"
    and h2: "listening (sockets connected_world ! 0)"
    and h3: "readyState (sockets connected_world ! 0) \<noteq> WS_CLOSED" by simp_all
  have normal_and_retry:
    "0 < length (sockets connected_world)
    \<and> listening (sockets connected_world ! 0)
    \<and> readyState (sockets connected_world ! 0) \<noteq> WS_CLOSED
    \<and> connectionState (step accept_all (Socket_close 0 1000 []) connected_world) = DISCONNECTED
    \<and> timeouts (step accept_all (Socket_close 0 1000 []) connected_world) = []
    \<and> reconnectAttempts (step accept_all (Socket_close 0 1000 []) connected_world) = 0
    \<and> connectionState (step accept_all (Socket_close 0 1006 []) connected_world) = RECONNECTING
    \<and> reconnectAttempts (step accept_all (Socket_close 0 1006 []) connected_world) = 1
    \<and> timeouts (step accept_all (Socket_close 0 1006 []) connected_world) = [(2, 3000)]
    \<and> notified (step accept_all (Socket_close 0 1006 []) connected_world)
        = [(0, CONNECTING), (0, CONNECTED), (0, DISCONNECTED), (0, RECONNECTING)]"
    using close_event_policy [OF h1 h2 h3, of 1000 accept_all "[]"]
      close_event_policy [OF h1 h2 h3, of 1006 accept_all "[]"] a b
    by simp
  have c: "5 < length (sockets last_attempt) \<and> listening (sockets last_attempt ! 5)
           \<and> readyState (sockets last_attempt ! 5) \<noteq> WS_CLOSED"
    by code_simp
  have d: "reconnectAttempts last_attempt = 5 \<and> maxReconnectAttempts (config last_attempt) = 5
           \<and> timeouts last_attempt = []"
    by code_simp
  from c have k1: "5 < length (sockets last_attempt)"
    and k2: "listening (sockets last_attempt ! 5)"
    and k3: "readyState (sockets last_attempt ! 5) \<noteq> WS_CLOSED" by simp_all
  have exhausted:
    "5 < length (sockets last_attempt)
    \<and> listening (sockets last_attempt ! 5)
    \<and> readyState (sockets last_attempt ! 5) \<noteq> WS_CLOSED
    \<and> maxReconnectAttempts (config last_attempt) \<le> reconnectAttempts last_attempt
    \<and> connectionState (step accept_all (Socket_close 5 1006 []) last_attempt) = ERROR
    \<and> timeouts (step accept_all (Socket_close 5 1006 []) last_attempt) = []"
    using close_event_policy [OF k1 k2 k3, of 1006 accept_all "[]"] c d
    by simp
  from normal_and_retry exhausted show ?thesis by blast
qed

subsection \<open>connect\<close>


lemma connect_open: "ws_is_open w \<Longrightarrow> connect accepts tok w = w"
  by (simp add: connect_def)

lemma connect_accepted:
  assumes "\<not> ws_is_open w" and "accepts (wsUrl (config (connect accepts tok w)))"
  shows "sockets (connect accepts tok w)
           = sockets w @ [(new_WebSocket (wsUrl (config (connect accepts tok w))))\<lparr>listening := True\<rparr>]"
    and "ws (connect accepts tok w) = Some (length (sockets w))"
    and "connectionState (connect accepts tok w) = CONNECTING"
    and "reconnectTimer (connect accepts tok w) = None"
    and "timeouts (connect accepts tok w)
           = filter (\<lambda>p. Some (fst p) \<noteq> reconnectTimer w) (timeouts w)"
    and "reconnectAttempts (connect accepts tok w) = reconnectAttempts w"
  using assms
  by (auto simp: connect_def method_defs platform_defs Let_def split: option.splits if_splits)






subsection \<open>The attempt counter\<close>

text \<open>
  Claim C2, as stated, fails: \<open>disconnect()\<close> sets the counter to 0 as well. Here the
  first socket failed, the counter is 1, and \<open>disconnect()\<close> brings it to 0 although no
  listener was ever told \<open>CONNECTED\<close>.
\<close>

theorem disconnect_resets_counter:
  "reconnectAttempts reconnecting_listened = 1
   \<and> reconnectAttempts (step accept_all Call_disconnect reconnecting_listened) = 0
   \<and> connectionState (step accept_all Call_disconnect reconnecting_listened) = DISCONNECTED
   \<and> notified (step accept_all Call_disconnect reconnecting_listened)
       = [(0, CONNECTING), (0, DISCONNECTED), (0, RECONNECTING), (0, DISCONNECTED)]"
  by code_simp

lemma disconnect_attempts: "reconnectAttempts (disconnect w) = 0"
  and disconnect_state: "connectionState (disconnect w) = DISCONNECTED"
  by (simp_all add: disconnect_def method_defs platform_defs Let_def split: option.splits)

lemma onopen_attempts: "reconnectAttempts (onopen w) = 0"
  and onopen_state: "connectionState (onopen w) = CONNECTED"
  by (simp_all add: onopen_def method_defs platform_defs Let_def split: option.splits prod.splits)

lemma scheduleReconnect_attempts:
  "reconnectAttempts (scheduleReconnect w) = reconnectAttempts w
   \<or> reconnectAttempts (scheduleReconnect w) = reconnectAttempts w + 1
       \<and> connectionState (scheduleReconnect w) = RECONNECTING
       \<and> reconnectAttempts w < maxReconnectAttempts (config w)"
  by (simp add: method_defs platform_defs Let_def)

lemma connect_attempts:
  "reconnectAttempts (connect a tok w) = reconnectAttempts w
   \<or> reconnectAttempts (connect a tok w) = reconnectAttempts w + 1
       \<and> connectionState (connect a tok w) = RECONNECTING
       \<and> reconnectAttempts w < maxReconnectAttempts (config w)"
  by (auto simp: connect_def method_defs platform_defs Let_def split: option.splits)

lemma onclose_attempts:
  "reconnectAttempts (onclose code reason w) = reconnectAttempts w
   \<or> reconnectAttempts (onclose code reason w) = reconnectAttempts w + 1
       \<and> connectionState (onclose code reason w) = RECONNECTING
       \<and> reconnectAttempts w < maxReconnectAttempts (config w)"
  by (auto simp: onclose_def method_defs platform_defs Let_def split: option.splits)

text \<open>What one event can do to the counter.\<close>

lemma step_attempts_cases:
  "reconnectAttempts (step a e w) = reconnectAttempts w
    \<or> reconnectAttempts (step a e w) = 0
        \<and> ((\<exists>i. e = Socket_open i) \<and> connectionState (step a e w) = CONNECTED
           \<or> e = Call_disconnect \<and> connectionState (step a e w) = DISCONNECTED)
    \<or> reconnectAttempts (step a e w) = reconnectAttempts w + 1
        \<and> connectionState (step a e w) = RECONNECTING
        \<and> reconnectAttempts w < maxReconnectAttempts (config w)"
proof (cases e)
  case (Call_connect tok)
  then show ?thesis using connect_attempts [of a tok w] by auto
next
  case Call_disconnect
  then show ?thesis by (simp add: disconnect_attempts disconnect_state)
next
  case (Call_send t d n)
  then show ?thesis by (simp add: send_defs platform_defs split: send_splits)
next
  case (Call_onConnectionStateChange h)
  then show ?thesis by (simp add: onConnectionStateChange_def)
next
  case (Call_unsubscribe h)
  then show ?thesis by (simp add: unsubscribe_state_def)
next
  case (Socket_open j)
  then show ?thesis by (simp add: onopen_attempts onopen_state)
next
  case (Socket_error j)
  then show ?thesis by (simp add: onerror_def method_defs platform_defs)
next
  case (Socket_close j code reason)
  then show ?thesis
    using onclose_attempts [of code reason "set_readyState j WS_CLOSED w"]
    by (auto simp: set_readyState_def)
next
  case (Timeout_fires t)
  then show ?thesis using connect_attempts [of a None "clearTimeout t w"]
    by (auto simp: clearTimeout_def)
next
  case (Interval_fires t n)
  then show ?thesis by (simp add: heartbeat_def send_defs platform_defs split: send_splits)
qed

text \<open>
  Claim C2, amended. Whatever happens to the manager, the counter afterwards is what
  it was, or it is 0 and what happened was a socket opening (state \<open>CONNECTED\<close>) or a
  call of \<open>disconnect\<close> (state \<open>DISCONNECTED\<close>), or it is one more than it was, attempts
  remained, and the state is \<open>RECONNECTING\<close>. Every call of \<open>disconnect\<close> and every
  socket that opens sets it to 0.
\<close>

theorem attempt_counter_changes:
  "(reconnectAttempts (step a e w) = reconnectAttempts w
    \<or> reconnectAttempts (step a e w) = 0
        \<and> ((\<exists>i. e = Socket_open i) \<and> connectionState (step a e w) = CONNECTED
           \<or> e = Call_disconnect \<and> connectionState (step a e w) = DISCONNECTED)
    \<or> reconnectAttempts (step a e w) = reconnectAttempts w + 1
        \<and> connectionState (step a e w) = RECONNECTING
        \<and> reconnectAttempts w < maxReconnectAttempts (config w))
   \<and> reconnectAttempts (step a Call_disconnect w) = 0
   \<and> (i < length (sockets w) \<and> listening (sockets w ! i)
         \<and> readyState (sockets w ! i) = WS_CONNECTING
       \<longrightarrow> reconnectAttempts (step a (Socket_open i) w) = 0
         \<and> connectionState (step a (Socket_open i) w) = CONNECTED)"
  using step_attempts_cases [of a e w]
  by (simp add: disconnect_attempts onopen_attempts onopen_state)

text \<open>The theorem at the second attempt (counter 1), whose socket opens.\<close>

theorem attempt_counter_changes_witness:
  "1 < length (sockets second_attempt) \<and> listening (sockets second_attempt ! 1)
   \<and> readyState (sockets second_attempt ! 1) = WS_CONNECTING
   \<and> reconnectAttempts second_attempt = 1
   \<and> reconnectAttempts (step accept_all (Socket_open 1) second_attempt) = 0
   \<and> connectionState (step accept_all (Socket_open 1) second_attempt) = CONNECTED"
proof -
  have a: "1 < length (sockets second_attempt) \<and> listening (sockets second_attempt ! 1)
           \<and> readyState (sockets second_attempt ! 1) = WS_CONNECTING
           \<and> reconnectAttempts second_attempt = 1"
    by code_simp
  with attempt_counter_changes [of accept_all "Socket_open 1" second_attempt 1]
  show ?thesis by blast
qed

subsection \<open>The bound on reconnect attempts\<close>

text \<open>
  Claim C4, as stated, fails. After five abnormal closes in a row under the default
  configuration the counter has reached \<open>maxReconnectAttempts\<close>, yet the state is
  \<open>RECONNECTING\<close> and the fifth reconnect is scheduled; if that reconnect succeeds the
  manager is \<open>CONNECTED\<close> without ever having been in \<open>ERROR\<close>. And \<open>ERROR\<close> after
  exhaustion does not last until the next \<open>connect()\<close>: a socket left connecting by an
  earlier double \<open>connect()\<close> that opens afterwards resets the counter, and its abnormal
  close schedules a reconnect.
\<close>

theorem max_reached_not_error:
  "reconnectAttempts (run accept_all five_closes world0)
     = maxReconnectAttempts (config (run accept_all five_closes world0))
   \<and> connectionState (run accept_all five_closes world0) = RECONNECTING
   \<and> timeouts (run accept_all five_closes world0) = [(6, 15000)]
   \<and> connectionState (run accept_all (five_closes @ [Timeout_fires 6, Socket_open 5]) world0)
       = CONNECTED
   \<and> (0, ERROR) \<notin> set (notified
         (run accept_all (five_closes @ [Timeout_fires 6, Socket_open 5]) world0))
   \<and> connectionState (run accept_all stale_trace world0) = ERROR
   \<and> timeouts (run accept_all stale_trace world0) = []
   \<and> connectionState
         (run accept_all (stale_trace @ [Socket_open 0, Socket_close 0 1006 []]) world0)
       = RECONNECTING
   \<and> timeouts (run accept_all (stale_trace @ [Socket_open 0, Socket_close 0 1006 []]) world0)
       = [(7, 3000)]"
  by code_simp

lemma connect_max: "maxReconnectAttempts (config (connect a tok w)) = maxReconnectAttempts (config w)"
  by (auto simp: connect_def method_defs platform_defs Let_def split: option.splits)

lemma step_max: "maxReconnectAttempts (config (step a e w)) = maxReconnectAttempts (config w)"
proof (cases e)
  case (Call_connect tok)
  then show ?thesis by (simp add: connect_max)
next
  case (Timeout_fires t)
  then show ?thesis using connect_max [of a None "clearTimeout t w"] by (simp add: clearTimeout_def)
qed (simp_all add: disconnect_def send_defs onopen_def onclose_def onerror_def heartbeat_def
       onConnectionStateChange_def unsubscribe_state_def method_defs platform_defs Let_def
       split: send_splits prod.splits)

lemma step_bounded:
  assumes "0 \<le> reconnectAttempts w" and "reconnectAttempts w \<le> maxReconnectAttempts (config w)"
  shows "0 \<le> reconnectAttempts (step a e w)
         \<and> reconnectAttempts (step a e w) \<le> maxReconnectAttempts (config (step a e w))"
  using assms step_attempts_cases [of a e w] step_max [of a e w] by auto

lemma run_Cons: "run a (e # evs) w = run a evs (step a e w)"
  by (simp add: run_def)

lemma run_max: "maxReconnectAttempts (config (run a evs w)) = maxReconnectAttempts (config w)"
  by (induction evs arbitrary: w) (simp_all add: run_Cons step_max, simp add: run_def)

lemma run_bounded:
  assumes "0 \<le> reconnectAttempts w" and "reconnectAttempts w \<le> maxReconnectAttempts (config w)"
  shows "0 \<le> reconnectAttempts (run a evs w)
         \<and> reconnectAttempts (run a evs w) \<le> maxReconnectAttempts (config (run a evs w))"
  using assms
proof (induction evs arbitrary: w)
  case Nil
  then show ?case by (simp add: run_def)
next
  case (Cons e evs)
  from step_bounded [OF Cons.prems, of a e]
  show ?case by (simp add: run_Cons Cons.IH)
qed

lemma connect_exhausted:
  assumes "maxReconnectAttempts (config w) \<le> reconnectAttempts w"
  shows "nextTimerId (connect a tok w) = nextTimerId w
         \<and> set (timeouts (connect a tok w)) \<subseteq> set (timeouts w)"
  using assms
  by (auto simp: connect_def method_defs platform_defs Let_def split: option.splits)

lemma step_exhausted_timers:
  assumes "maxReconnectAttempts (config w) \<le> reconnectAttempts w" and "\<not> resets_counter e"
  shows "nextTimerId (step a e w) = nextTimerId w
         \<and> set (timeouts (step a e w)) \<subseteq> set (timeouts w)"
proof (cases e)
  case (Call_connect tok)
  then show ?thesis using connect_exhausted [OF assms(1)] by simp
next
  case (Timeout_fires t)
  have "maxReconnectAttempts (config (clearTimeout t w)) \<le> reconnectAttempts (clearTimeout t w)"
    using assms(1) by (simp add: clearTimeout_def)
  from connect_exhausted [OF this, of a None] Timeout_fires
  show ?thesis by (auto simp: clearTimeout_def)
next
  case (Socket_close j code reason)
  then show ?thesis using assms(1)
    by (auto simp: onclose_def method_defs platform_defs Let_def split: option.splits)
qed (use assms(2) in \<open>simp_all add: send_defs onerror_def heartbeat_def
       onConnectionStateChange_def unsubscribe_state_def method_defs platform_defs
       split: send_splits\<close>)

lemma step_exhausted:
  assumes "maxReconnectAttempts (config w) \<le> reconnectAttempts w" and "\<not> resets_counter e"
  shows "reconnectAttempts (step a e w) = reconnectAttempts w"
  using assms step_attempts_cases [of a e w] by auto

lemma run_exhausted:
  assumes "maxReconnectAttempts (config w) \<le> reconnectAttempts w"
    and "\<forall>e \<in> set evs. \<not> resets_counter e"
  shows "reconnectAttempts (run a evs w) = reconnectAttempts w
         \<and> nextTimerId (run a evs w) = nextTimerId w
         \<and> set (timeouts (run a evs w)) \<subseteq> set (timeouts w)"
  using assms
proof (induction evs arbitrary: w)
  case Nil
  then show ?case by (simp add: run_def)
next
  case (Cons e evs)
  have e: "\<not> resets_counter e" and r: "\<forall>x \<in> set evs. \<not> resets_counter x"
    using Cons.prems(2) by simp_all
  have s: "reconnectAttempts (step a e w) = reconnectAttempts w"
    using step_exhausted [OF Cons.prems(1) e] .
  have t: "nextTimerId (step a e w) = nextTimerId w
           \<and> set (timeouts (step a e w)) \<subseteq> set (timeouts w)"
    using step_exhausted_timers [OF Cons.prems(1) e] .
  have "maxReconnectAttempts (config (step a e w)) \<le> reconnectAttempts (step a e w)"
    using Cons.prems(1) s by (simp add: step_max)
  from Cons.IH [OF this r] s t show ?case by (auto simp: run_Cons)
qed

lemma connect_enters_error:
  assumes "connectionState (connect a tok w) = ERROR" and "connectionState w \<noteq> ERROR"
  shows "maxReconnectAttempts (config w) \<le> reconnectAttempts w"
  using assms
  by (auto simp: connect_def method_defs platform_defs Let_def split: option.splits if_splits)

lemma onclose_enters_error:
  assumes "connectionState (onclose code reason w) = ERROR" and "connectionState w \<noteq> ERROR"
  shows "maxReconnectAttempts (config w) \<le> reconnectAttempts w"
  using assms
  by (auto simp: onclose_def method_defs platform_defs Let_def split: option.splits if_splits)

lemma send_state:
  "connectionState (case send t d n w of Inl e \<Rightarrow> w | Inr w' \<Rightarrow> w') = connectionState w"
  by (auto simp: send_defs platform_defs split: send_splits)

lemma heartbeat_state: "connectionState (heartbeat n w) = connectionState w"
  by (auto simp: heartbeat_def send_defs platform_defs split: send_splits)

lemma step_enters_error:
  assumes "connectionState (step a ev w) = ERROR" and "connectionState w \<noteq> ERROR"
  shows "(\<exists>i. ev = Socket_error i) \<or> maxReconnectAttempts (config w) \<le> reconnectAttempts w"
proof (cases ev)
  case (Call_connect tok)
  with assms connect_enters_error [of a tok w] show ?thesis by simp
next
  case Call_disconnect
  with assms show ?thesis by (simp add: disconnect_state)
next
  case (Call_send t d n)
  with assms show ?thesis by (simp add: send_state)
next
  case (Call_onConnectionStateChange h)
  with assms show ?thesis by (simp add: onConnectionStateChange_def split: if_splits)
next
  case (Call_unsubscribe h)
  with assms show ?thesis by (simp add: unsubscribe_state_def)
next
  case (Socket_open j)
  with assms show ?thesis by (simp add: onopen_state split: if_splits)
next
  case (Socket_error j)
  then show ?thesis by simp
next
  case (Socket_close j code reason)
  with assms onclose_enters_error [of code reason "set_readyState j WS_CLOSED w"]
  show ?thesis by (simp add: set_readyState_def split: if_splits)
next
  case (Timeout_fires t)
  with assms connect_enters_error [of a None "clearTimeout t w"]
  show ?thesis by (simp add: clearTimeout_def split: if_splits)
next
  case (Interval_fires t n)
  with assms show ?thesis by (simp add: heartbeat_state split: if_splits)
qed

lemma error_event_state:
  assumes "i < length (sockets w)" and "listening (sockets w ! i)"
  shows "connectionState (step a (Socket_error i) w) = ERROR"
    and "reconnectAttempts (step a (Socket_error i) w) = reconnectAttempts w"
    and "timeouts (step a (Socket_error i) w) = timeouts w"
  using assms by (simp_all add: onerror_def method_defs platform_defs)

text \<open>
  Claim C4, amended. From a world whose counter lies between 0 and
  \<open>maxReconnectAttempts\<close> (the loaded module's is 0, of 5) no sequence of events takes
  the counter above \<open>maxReconnectAttempts\<close>. A policy evaluation that finds attempts
  remaining counts one and enters \<open>RECONNECTING\<close>, also when the count thereby reaches
  the maximum; one that finds the counter at the maximum enters \<open>ERROR\<close> and creates no
  timer. And from a world whose counter is at the maximum, any sequence of events
  without a socket opening and without \<open>disconnect()\<close> (calls of \<open>connect()\<close> included)
  leaves the counter there and creates no timer. \<open>ERROR\<close> is not reserved to exhaustion:
  the error event of a listened-to socket enters it at any count, changing neither the
  counter nor the timers; but whenever another event leaves the manager in \<open>ERROR\<close>,
  coming from another state, the counter was at the maximum.
\<close>

theorem reconnect_attempts_bounded:
  "(0 \<le> reconnectAttempts w \<and> reconnectAttempts w \<le> maxReconnectAttempts (config w) \<longrightarrow>
       0 \<le> reconnectAttempts (run a evs w)
     \<and> reconnectAttempts (run a evs w) \<le> maxReconnectAttempts (config w))
   \<and> 0 \<le> reconnectAttempts (run a evs (initial_world v))
   \<and> reconnectAttempts (run a evs (initial_world v)) \<le> 5
   \<and> (reconnectAttempts w < maxReconnectAttempts (config w) \<longrightarrow>
         connectionState (scheduleReconnect w) = RECONNECTING
       \<and> reconnectAttempts (scheduleReconnect w) = reconnectAttempts w + 1)
   \<and> (maxReconnectAttempts (config w) \<le> reconnectAttempts w \<longrightarrow>
         connectionState (scheduleReconnect w) = ERROR
       \<and> timeouts (scheduleReconnect w) = timeouts w
       \<and> nextTimerId (scheduleReconnect w) = nextTimerId w
       \<and> reconnectAttempts (scheduleReconnect w) = reconnectAttempts w)
   \<and> (maxReconnectAttempts (config w) \<le> reconnectAttempts w
         \<and> (\<forall>e \<in> set evs. \<not> resets_counter e) \<longrightarrow>
         reconnectAttempts (run a evs w) = reconnectAttempts w
       \<and> nextTimerId (run a evs w) = nextTimerId w
       \<and> set (timeouts (run a evs w)) \<subseteq> set (timeouts w))
   \<and> (connectionState (step a ev w) = ERROR \<and> connectionState w \<noteq> ERROR \<longrightarrow>
         (\<exists>k. ev = Socket_error k) \<or> maxReconnectAttempts (config w) \<le> reconnectAttempts w)
   \<and> (k < length (sockets w) \<and> listening (sockets w ! k) \<longrightarrow>
         connectionState (step a (Socket_error k) w) = ERROR
       \<and> reconnectAttempts (step a (Socket_error k) w) = reconnectAttempts w
       \<and> timeouts (step a (Socket_error k) w) = timeouts w)"
proof -
  have i: "reconnectAttempts (initial_world v) = 0
           \<and> maxReconnectAttempts (config (initial_world v)) = 5"
    by (simp add: initial_world_def module_load_def getInstance_def new_WebSocketManager_def
          spread_config_def empty_config_def DEFAULT_CONFIG_def WebSocketManager.defs Let_def)
  then have "0 \<le> reconnectAttempts (initial_world v)"
    and "reconnectAttempts (initial_world v) \<le> maxReconnectAttempts (config (initial_world v))"
    by simp_all
  from run_bounded [OF this, of a evs] i
  have init: "0 \<le> reconnectAttempts (run a evs (initial_world v))
              \<and> reconnectAttempts (run a evs (initial_world v)) \<le> 5"
    by (simp add: run_max)
  have x: "nextTimerId (scheduleReconnect w) = nextTimerId w"
    if "maxReconnectAttempts (config w) \<le> reconnectAttempts w"
    using that by (simp add: method_defs platform_defs)
  show ?thesis
    using run_bounded [of w a evs] run_max [of a evs w] init
      scheduleReconnect_retry(1,4) [of w] scheduleReconnect_exhausted [of w] x
      run_exhausted [of w evs a] step_enters_error [of a ev w] error_event_state [of k w a]
    by auto
qed

text \<open>
  The theorem at the world after six failures in a row (state \<open>ERROR\<close>), followed by an
  explicit \<open>connect()\<close> whose socket fails; at a first attempt, for a policy evaluation
  and for an error event; and at the attempt after five failures, whose socket fails.
\<close>

theorem reconnect_attempts_bounded_witness:
  "maxReconnectAttempts (config exhausted_world) \<le> reconnectAttempts exhausted_world
   \<and> 0 \<le> reconnectAttempts exhausted_world
   \<and> reconnectAttempts exhausted_world \<le> maxReconnectAttempts (config exhausted_world)
   \<and> connectionState exhausted_world = ERROR
   \<and> \<not> resets_counter (Call_connect None) \<and> \<not> resets_counter (Socket_close 6 1006 [])
   \<and> reconnectAttempts
        (run accept_all [Call_connect None, Socket_close 6 1006 []] exhausted_world) = 5
   \<and> timeouts (run accept_all [Call_connect None, Socket_close 6 1006 []] exhausted_world) = []
   \<and> connectionState (scheduleReconnect exhausted_world) = ERROR
   \<and> reconnectAttempts first_attempt < maxReconnectAttempts (config first_attempt)
   \<and> connectionState (scheduleReconnect first_attempt) = RECONNECTING
   \<and> connectionState (step accept_all (Socket_close 5 1006 []) last_attempt) = ERROR
   \<and> connectionState last_attempt \<noteq> ERROR
   \<and> maxReconnectAttempts (config last_attempt) \<le> reconnectAttempts last_attempt
   \<and> 0 < length (sockets first_attempt) \<and> listening (sockets first_attempt ! 0)
   \<and> connectionState (step accept_all (Socket_error 0) first_attempt) = ERROR
   \<and> reconnectAttempts (step accept_all (Socket_error 0) first_attempt) = 0"
proof -
  have a: "reconnectAttempts exhausted_world = 5
           \<and> maxReconnectAttempts (config exhausted_world) = 5
           \<and> connectionState exhausted_world = ERROR
           \<and> timeouts exhausted_world = []"
    by code_simp
  from a reconnect_attempts_bounded
         [of exhausted_world accept_all "[Call_connect None, Socket_close 6 1006 []]"]
  have exhausted:
    "maxReconnectAttempts (config exhausted_world) \<le> reconnectAttempts exhausted_world
     \<and> 0 \<le> reconnectAttempts exhausted_world
     \<and> reconnectAttempts exhausted_world \<le> maxReconnectAttempts (config exhausted_world)
     \<and> connectionState exhausted_world = ERROR
     \<and> \<not> resets_counter (Call_connect None) \<and> \<not> resets_counter (Socket_close 6 1006 [])
     \<and> reconnectAttempts
          (run accept_all [Call_connect None, Socket_close 6 1006 []] exhausted_world) = 5
     \<and> timeouts (run accept_all [Call_connect None, Socket_close 6 1006 []] exhausted_world) = []
     \<and> connectionState (scheduleReconnect exhausted_world) = ERROR"
    by simp
  have b: "reconnectAttempts first_attempt < maxReconnectAttempts (config first_attempt)"
    by code_simp
  from b reconnect_attempts_bounded [of first_attempt accept_all "[]"]
  have remaining: "connectionState (scheduleReconnect first_attempt) = RECONNECTING"
    by blast
  have c: "connectionState (step accept_all (Socket_close 5 1006 []) last_attempt) = ERROR
           \<and> connectionState last_attempt \<noteq> ERROR"
    by code_simp
  from c reconnect_attempts_bounded
           [of last_attempt accept_all "[]" _ "Socket_close 5 1006 []"]
  have entered: "maxReconnectAttempts (config last_attempt) \<le> reconnectAttempts last_attempt"
    by simp
  have d: "0 < length (sockets first_attempt) \<and> listening (sockets first_attempt ! 0)
           \<and> reconnectAttempts first_attempt = 0"
    by code_simp
  from d reconnect_attempts_bounded [of first_attempt accept_all "[]" _ _ 0]
  have error_event: "connectionState (step accept_all (Socket_error 0) first_attempt) = ERROR
           \<and> reconnectAttempts (step accept_all (Socket_error 0) first_attempt) = 0"
    by simp
  from exhausted b remaining c entered d error_event show ?thesis by blast
qed

subsection \<open>send\<close>

text \<open>
  Claim C6, as stated, fails: what \<open>send\<close> tests is the current socket's \<open>readyState\<close>,
  not the connection state. Below, the current socket is open while the failure of an
  earlier socket has put the manager in \<open>RECONNECTING\<close>; \<open>send\<close> returns normally, having
  transmitted the message and written no diagnostic.
\<close>

theorem send_while_reconnecting:
  "connectionState split_world = RECONNECTING
   \<and> \<not> isConnected split_world
   \<and> outbox (sockets split_world ! 1) = []
   \<and> \<not> isl (send ''chat'' (Some (Json ''42'')) ''t'' split_world)
   \<and> outbox (sockets (projr (send ''chat'' (Some (Json ''42'')) ''t'' split_world)) ! 1)
       = [\<lparr>env_type = ''chat'', env_data = Some ''42'', env_timestamp = ''t''\<rparr>]
   \<and> console (projr (send ''chat'' (Some (Json ''42'')) ''t'' split_world)) = console split_world"
  by code_simp

text \<open>
  Claim C6, amended. When the manager has no current socket or its \<open>readyState\<close> is not
  \<open>OPEN\<close>, \<open>send\<close> returns normally for every payload, having appended one diagnostic to
  the console and changed nothing else: no socket receives or queues anything, and the
  manager's fields, the timers and the listeners' calls are as before. When the current
  socket is \<open>OPEN\<close>, whatever the connection state, a message that \<open>JSON.stringify\<close>
  serialises is handed to that socket and nothing else changes, and one it rejects makes
  \<open>send\<close> throw, with no world returned; it rejects exactly the payloads without a JSON
  text. A call that returns never changes the manager's fields, the timers or the
  listeners' calls.
\<close>

theorem send_dropped_unless_open:
  "(\<not> ws_is_open w \<longrightarrow>
       send type data now w = Inr (w\<lparr>console := console w @ [Warn_not_sent type data]\<rparr>))
   \<and> (ws_is_open w \<and> JSON_stringify type data now = Inr m \<longrightarrow>
       (\<exists>i. ws w = Some i \<and> i < length (sockets w)
          \<and> send type data now w
              = Inr (w\<lparr>sockets := (sockets w)[i := (sockets w ! i)
                         \<lparr>outbox := outbox (sockets w ! i) @ [m]\<rparr>]\<rparr>)))
   \<and> (ws_is_open w \<and> JSON_stringify type data now = Inl e \<longrightarrow> send type data now w = Inl e)
   \<and> ((\<exists>x. JSON_stringify type data now = Inl x) = (data = Some Unserialisable))
   \<and> (send type data now w = Inr w' \<longrightarrow>
         connectionState w' = connectionState w
       \<and> WebSocketManager.truncate w' = WebSocketManager.truncate w
       \<and> timeouts w' = timeouts w
       \<and> intervals w' = intervals w
       \<and> notified w' = notified w
       \<and> (\<not> ws_is_open w \<longrightarrow> sockets w' = sockets w)
       \<and> (ws_is_open w \<longrightarrow> console w' = console w))"
proof -
  have closed: "send type data now w = Inr (w\<lparr>console := console w @ [Warn_not_sent type data]\<rparr>)"
    if "\<not> ws_is_open w"
    using that by (simp add: send_def console_add_def)
  have sent: "\<exists>i. ws w = Some i \<and> i < length (sockets w)
          \<and> send type data now w
              = Inr (w\<lparr>sockets := (sockets w)[i := (sockets w ! i)
                         \<lparr>outbox := outbox (sockets w ! i) @ [m]\<rparr>]\<rparr>)"
    if "ws_is_open w" and "JSON_stringify type data now = Inr m"
    using that by (auto simp: send_def ws_is_open_def split: option.splits)
  have thrown: "send type data now w = Inl e"
    if "ws_is_open w" and "JSON_stringify type data now = Inl e"
    using that by (simp add: send_def)
  have rejects: "(\<exists>x. JSON_stringify type data now = Inl x) = (data = Some Unserialisable)"
    by (auto simp: JSON_stringify_def split: option.splits payload.splits)
  have kept: "connectionState w' = connectionState w
       \<and> WebSocketManager.truncate w' = WebSocketManager.truncate w
       \<and> timeouts w' = timeouts w
       \<and> intervals w' = intervals w
       \<and> notified w' = notified w
       \<and> (\<not> ws_is_open w \<longrightarrow> sockets w' = sockets w)
       \<and> (ws_is_open w \<longrightarrow> console w' = console w)"
    if "send type data now w = Inr w'"
    using that
    by (auto simp: send_def console_add_def WebSocketManager.defs
             split: if_splits option.splits sum.splits)
  from closed sent thrown rejects kept show ?thesis by blast
qed

text \<open>
  The theorem at a socket still connecting, for a payload with a JSON text and for one
  without, and at an open socket for both.
\<close>

theorem send_dropped_unless_open_witness:
  "\<not> ws_is_open first_attempt
   \<and> send ''chat'' (Some Unserialisable) ''t'' first_attempt
       = Inr (first_attempt
                \<lparr>console := console first_attempt @ [Warn_not_sent ''chat'' (Some Unserialisable)]\<rparr>)
   \<and> send ''chat'' None ''t'' first_attempt
       = Inr (first_attempt\<lparr>console := console first_attempt @ [Warn_not_sent ''chat'' None]\<rparr>)
   \<and> ws_is_open connected_world
   \<and> JSON_stringify ''chat'' (Some Unserialisable) ''t'' = Inl TypeError
   \<and> send ''chat'' (Some Unserialisable) ''t'' connected_world = Inl TypeError
   \<and> JSON_stringify ''chat'' (Some (Json ''42'')) ''t''
       = Inr \<lparr>env_type = ''chat'', env_data = Some ''42'', env_timestamp = ''t''\<rparr>
   \<and> \<not> isl (send ''chat'' (Some (Json ''42'')) ''t'' connected_world)"
proof -
  have a: "\<not> ws_is_open first_attempt" and b: "ws_is_open connected_world"
    by code_simp+
  have c: "JSON_stringify ''chat'' (Some Unserialisable) ''t'' = Inl TypeError"
    and d: "JSON_stringify ''chat'' (Some (Json ''42'')) ''t''
              = Inr \<lparr>env_type = ''chat'', env_data = Some ''42'', env_timestamp = ''t''\<rparr>"
    by (simp_all add: JSON_stringify_def)
  from a send_dropped_unless_open [of first_attempt "''chat''" "Some Unserialisable" "''t''"]
  have 1: "send ''chat'' (Some Unserialisable) ''t'' first_attempt
       = Inr (first_attempt
                \<lparr>console := console first_attempt @ [Warn_not_sent ''chat'' (Some Unserialisable)]\<rparr>)"
    by blast
  from a send_dropped_unless_open [of first_attempt "''chat''" None "''t''"]
  have 2: "send ''chat'' None ''t'' first_attempt
       = Inr (first_attempt\<lparr>console := console first_attempt @ [Warn_not_sent ''chat'' None]\<rparr>)"
    by blast
  from b c send_dropped_unless_open
           [of connected_world "''chat''" "Some Unserialisable" "''t''" _ TypeError]
  have 3: "send ''chat'' (Some Unserialisable) ''t'' connected_world = Inl TypeError"
    by blast
  from b d send_dropped_unless_open
           [of connected_world "''chat''" "Some (Json ''42'')" "''t''"
               "\<lparr>env_type = ''chat'', env_data = Some ''42'', env_timestamp = ''t''\<rparr>"]
  obtain w' where "send ''chat'' (Some (Json ''42'')) ''t'' connected_world = Inr w'"
    by blast
  then have 4: "\<not> isl (send ''chat'' (Some (Json ''42'')) ''t'' connected_world)"
    by simp
  from a b c d 1 2 3 4 show ?thesis by blast
qed

subsection \<open>The stored token\<close>

text \<open>
  Claim C10, as stated, fails: \<open>connect(token)\<close> returns before storing the token when
  the current socket is open. A token provided then is lost, and the reconnect after
  the next failure opens its socket with the older token.
\<close>

theorem refreshed_token_not_stored:
  "ws_is_open (run accept_all [Call_connect (Some ''old''), Socket_open 0] world0)
   \<and> authToken (config (run accept_all
        [Call_connect (Some ''old''), Socket_open 0, Call_connect (Some ''new'')] world0)) = ''old''
   \<and> authToken (config (run accept_all token_refresh world0)) = ''old''
   \<and> ws_url (sockets (run accept_all token_refresh world0) ! 1)
       = ''ws://localhost:8000/ws?token=old''"
  by code_simp

lemma ws_is_open_clearTimeout: "ws_is_open (clearTimeout t w) = ws_is_open w"
  by (simp add: ws_is_open_def clearTimeout_def split: option.splits)

lemma connect_config:
  "config (connect a tok w)
     = (case tok of
          None \<Rightarrow> config w
        | Some t \<Rightarrow> if t \<noteq> [] \<and> \<not> ws_is_open w then (config w)\<lparr>authToken := t\<rparr> else config w)"
  by (auto simp: connect_def method_defs platform_defs Let_def split: option.splits)

lemma connect_socket_url:
  assumes "\<not> ws_is_open w" and "a (wsUrl (config (connect a tok w)))"
  shows "ws_url (last (sockets (connect a tok w))) = wsUrl (config (connect a tok w))"
  using connect_accepted(1) [of w a tok, OF assms] by (simp add: new_WebSocket_def)

lemma disconnect_config: "config (disconnect w) = config w"
  by (simp add: disconnect_def method_defs platform_defs Let_def split: option.splits)

lemma step_config:
  "config (step a e w) = config w
   \<or> (\<exists>t. e = Call_connect (Some t) \<and> t \<noteq> [] \<and> \<not> ws_is_open w
          \<and> config (step a e w) = (config w)\<lparr>authToken := t\<rparr>)"
proof (cases e)
  case (Call_connect tok)
  then show ?thesis by (cases tok) (simp_all add: connect_config)
next
  case (Timeout_fires t)
  then show ?thesis by (simp add: connect_config clearTimeout_def)
qed (simp_all add: disconnect_config send_defs onopen_def onclose_def onerror_def heartbeat_def
       onConnectionStateChange_def unsubscribe_state_def method_defs platform_defs Let_def
       split: send_splits prod.splits)

text \<open>
  Claim C10, amended. \<open>connect(token)\<close> with a non-empty token, called while the current
  socket is not open, stores the token in the configuration and opens its socket with
  \<open>?token=\<close> and the encoded token appended to the url; called while the current socket
  is open it does nothing. \<open>connect()\<close> without a token, a reconnect timer firing (which
  calls it) and \<open>disconnect()\<close> leave the configuration alone, and the socket a firing
  timer opens carries the stored token in its url. No event changes the configuration
  except such a storing \<open>connect(token)\<close>.
\<close>

theorem token_sticky:
  "(\<not> ws_is_open w \<and> t \<noteq> [] \<longrightarrow> config (connect a (Some t) w) = (config w)\<lparr>authToken := t\<rparr>)
   \<and> (\<not> ws_is_open w \<and> t \<noteq> [] \<and> a (url (config w) @ ''?token='' @ encodeURIComponent t) \<longrightarrow>
         ws_url (last (sockets (connect a (Some t) w)))
           = url (config w) @ ''?token='' @ encodeURIComponent t)
   \<and> (ws_is_open w \<longrightarrow> connect a (Some t) w = w)
   \<and> config (connect a None w) = config w
   \<and> (tm \<in> fst ` set (timeouts w) \<and> \<not> ws_is_open w \<and> a (wsUrl (config w)) \<longrightarrow>
         config (step a (Timeout_fires tm) w) = config w
       \<and> ws_url (last (sockets (step a (Timeout_fires tm) w))) = wsUrl (config w))
   \<and> (authToken (config w) \<noteq> [] \<longrightarrow>
         wsUrl (config w)
           = url (config w) @ ''?token='' @ encodeURIComponent (authToken (config w)))
   \<and> config (disconnect w) = config w
   \<and> (config (step a e w) = config w
       \<or> (\<exists>t'. e = Call_connect (Some t') \<and> t' \<noteq> [] \<and> \<not> ws_is_open w
             \<and> config (step a e w) = (config w)\<lparr>authToken := t'\<rparr>))"
proof -
  have 1: "config (connect a (Some t) w) = (config w)\<lparr>authToken := t\<rparr>"
    if "\<not> ws_is_open w" and "t \<noteq> []"
    using that by (simp add: connect_config)
  have 2: "ws_url (last (sockets (connect a (Some t) w)))
             = url (config w) @ ''?token='' @ encodeURIComponent t"
    if o: "\<not> ws_is_open w" and t: "t \<noteq> []"
      and acc: "a (url (config w) @ ''?token='' @ encodeURIComponent t)"
  proof -
    have u: "wsUrl (config (connect a (Some t) w))
               = url (config w) @ ''?token='' @ encodeURIComponent t"
      using 1 [OF o t] t by (simp add: wsUrl_def)
    with acc have "a (wsUrl (config (connect a (Some t) w)))" by simp
    from connect_socket_url [of w a "Some t", OF o this] u show ?thesis by simp
  qed
  have 3: "config (step a (Timeout_fires tm) w) = config w
           \<and> ws_url (last (sockets (step a (Timeout_fires tm) w))) = wsUrl (config w)"
    if m: "tm \<in> fst ` set (timeouts w)" and o: "\<not> ws_is_open w" and acc: "a (wsUrl (config w))"
  proof -
    let ?w = "clearTimeout tm w"
    have c: "config (connect a None ?w) = config w"
      by (simp add: connect_config clearTimeout_def)
    have o': "\<not> ws_is_open ?w" using o by (simp add: ws_is_open_clearTimeout)
    have "a (wsUrl (config (connect a None ?w)))" using acc c by simp
    from connect_socket_url [of ?w a None, OF o' this] c m show ?thesis by simp
  qed
  from 1 2 3 step_config [of a e w] show ?thesis
    by (simp add: connect_open connect_config disconnect_config wsUrl_def)
qed

text \<open>
  The theorem at the loaded module for \<open>connect("old")\<close>, at the pending reconnect that
  follows, and at a connected manager.
\<close>

theorem token_sticky_witness:
  "\<not> ws_is_open world0 \<and> ''old'' \<noteq> []
   \<and> accept_all (url (config world0) @ ''?token='' @ encodeURIComponent ''old'')
   \<and> authToken (config (connect accept_all (Some ''old'') world0)) = ''old''
   \<and> ws_url (last (sockets (connect accept_all (Some ''old'') world0)))
       = ''ws://localhost:8000/ws?token=old''
   \<and> 1 \<in> fst ` set (timeouts token_reconnecting) \<and> \<not> ws_is_open token_reconnecting
   \<and> accept_all (wsUrl (config token_reconnecting))
   \<and> authToken (config token_reconnecting) \<noteq> []
   \<and> ws_url (last (sockets (step accept_all (Timeout_fires 1) token_reconnecting)))
       = ''ws://localhost:8000/ws?token=old''
   \<and> ws_is_open connected_world
   \<and> connect accept_all (Some ''new'') connected_world = connected_world"
proof -
  have a: "\<not> ws_is_open world0" and b: "url (config world0) = ''ws://localhost:8000/ws''"
    and e: "encodeURIComponent ''old'' = ''old''"
    by code_simp+
  have c: "accept_all (url (config world0) @ ''?token='' @ encodeURIComponent ''old'')"
    by (simp add: accept_all_def)
  have f: "1 \<in> fst ` set (timeouts token_reconnecting)" and g: "\<not> ws_is_open token_reconnecting"
    and h: "authToken (config token_reconnecting) = ''old''"
    and i: "url (config token_reconnecting) = ''ws://localhost:8000/ws''"
    and j: "ws_is_open connected_world"
    by code_simp+
  have k: "accept_all (wsUrl (config token_reconnecting))"
    by (simp add: accept_all_def)
  have l: "wsUrl (config token_reconnecting) = ''ws://localhost:8000/ws?token=old''"
    using h i e by (simp add: wsUrl_def)
  from a b c e token_sticky [of world0 "''old''" accept_all]
  have p: "authToken (config (connect accept_all (Some ''old'') world0)) = ''old''
           \<and> ws_url (last (sockets (connect accept_all (Some ''old'') world0)))
               = ''ws://localhost:8000/ws?token=old''"
    by simp
  from f g k l token_sticky [of token_reconnecting "''new''" accept_all 1]
  have q: "ws_url (last (sockets (step accept_all (Timeout_fires 1) token_reconnecting)))
             = ''ws://localhost:8000/ws?token=old''"
    by simp
  from j token_sticky [of connected_world "''new''" accept_all]
  have r: "connect accept_all (Some ''new'') connected_world = connected_world"
    by blast
  from a c f g h k p q j r show ?thesis by simp
qed

end
